theory Spec2Isabelle
  imports Main "HOL-Library.Word"
begin

section \<open>The Metropolis-Hastings update of \<^verbatim>\<open>edward/inferences/metropolis_hastings.py\<close>\<close>

text \<open>
  \<^verbatim>\<open>build_update\<close> does not compute numbers: it builds a TensorFlow graph, that is
  symbolic tensors and a grouped update operation that a later session run executes once
  per step. The embedding follows that: tensors are terms of a datatype, \<^verbatim>\<open>build_update\<close>
  is a function from the inference object to either a Python exception raised while the
  graph is built or the grouped update operation, and a small interpreter gives the
  integer and boolean scalars and the assignments of the update their run-time meaning.
\<close>

subsection \<open>Python values\<close>

type_synonym name = string

text \<open>
  The objects used as keys and values of the \<^verbatim>\<open>data\<close> dictionary: random variables
  (\<^verbatim>\<open>isinstance(x, RandomVariable)\<close> holds) and anything else (a placeholder, an array, a
  string). Objects are compared by identity, which the name stands for.
\<close>

datatype pyobj = RandomVariable name | Concrete name

fun is_RandomVariable :: "pyobj \<Rightarrow> bool" where
  "is_RandomVariable (RandomVariable _) = True"
| "is_RandomVariable (Concrete _) = False"

text \<open>
  A tensor as far as \<^verbatim>\<open>x.name\<close> and \<^verbatim>\<open>x.op.inputs\<close> show it: its name and the tensors
  that are the inputs of the operation producing it.
\<close>

datatype handle = Handle (hname: name) (hinputs: "handle list")

datatype empirical = Empirical (params: handle)

datatype error = KeyError | IndexError | ValueError

subsection \<open>Dictionaries\<close>

text \<open>
  A dictionary is an association list with distinct keys whose order is the iteration
  order; a new key is appended, an existing key keeps its place (the order of Python 3.7
  and later; earlier versions fix some other order for each dictionary).
\<close>

type_synonym ('k, 'v) dict = "('k \<times> 'v) list"

fun dict_set :: "('k, 'v) dict \<Rightarrow> 'k \<Rightarrow> 'v \<Rightarrow> ('k, 'v) dict" where
  "dict_set [] k v = [(k, v)]"
| "dict_set ((k', v') # d) k v =
     (if k' = k then (k, v) # d else (k', v') # dict_set d k v)"

fun dict_update :: "('k, 'v) dict \<Rightarrow> ('k, 'v) dict \<Rightarrow> ('k, 'v) dict" where
  "dict_update d [] = d"
| "dict_update d ((k, v) # other) = dict_update (dict_set d k v) other"

definition dict_of :: "('k \<times> 'v) list \<Rightarrow> ('k, 'v) dict" where
  "dict_of kvs = dict_update [] kvs"

definition dict_get :: "('k, 'v) dict \<Rightarrow> 'k \<Rightarrow> error + 'v" where
  "dict_get d k = (case map_of d k of None \<Rightarrow> Inl KeyError | Some v \<Rightarrow> Inr v)"

definition iterkeys :: "('k, 'v) dict \<Rightarrow> 'k list" where
  "iterkeys d = map fst d"

definition itervalues :: "('k, 'v) dict \<Rightarrow> 'v list" where
  "itervalues d = map snd d"

subsection \<open>Tensors and conditioned copies\<close>

text \<open>
  The tensors \<^verbatim>\<open>build_update\<close> creates. \<open>Copy rv swap scope\<close> is the node returned by
  \<^verbatim>\<open>copy(rv, swap, scope=scope)\<close>, a function of another module, kept symbolic; \<open>Value\<close>
  and \<open>LogProb\<close> are its \<^verbatim>\<open>value()\<close> and \<^verbatim>\<open>log_prob(.)\<close>. Two calls with the same
  arguments give the same term. \<open>Zero\<close> is the literal \<^verbatim>\<open>0.0\<close>, \<open>T\<close> the step counter
  \<^verbatim>\<open>self.t\<close>, \<open>Data v\<close> a concrete value of the data dictionary, \<open>Cond\<close> one output of
  \<^verbatim>\<open>tf.cond\<close>, \<open>OracleLogProb w x sample\<close> the call \<^verbatim>\<open>w.log_prob(x, sample)\<close> of a model
  wrapper. Integer constants are 32-bit, the type TensorFlow gives a Python integer.
\<close>

datatype tensor =
    Zero
  | Data name
  | T
  | IntConst "32 word"
  | Gather handle tensor
  | Maximum tensor tensor
  | Sub tensor tensor
  | Add tensor tensor
  | ReduceSum tensor
  | Value rv_copy
  | LogProb rv_copy tensor
  | OracleLogProb name "(pyobj \<times> pyobj) list" "(pyobj \<times> tensor) list"
  | UniformSample
  | Log tensor
  | Less tensor tensor
  | Cond tensor tensor tensor
  | Select tensor tensor tensor
and rv_copy =
    Copy name "(pyobj \<times> tensor) list" name

datatype assign_op =
    ScatterUpdate name tensor tensor
  | AssignAdd tensor

datatype update_op = Group "assign_op list"

subsection \<open>The inference object\<close>

record metropolis_hastings =
  latent_vars :: "(name \<times> empirical) list"
  proposal_vars :: "(name \<times> name) list"
  data :: "(pyobj \<times> pyobj) list"
  model_wrapper :: "name option"

text \<open>
  \<^verbatim>\<open>__init__\<close> stores \<^verbatim>\<open>proposal_vars\<close> and hands the other three arguments to the
  constructor of the base class, which is not in this file and is a parameter here: it
  either raises or returns the three attributes it sets.
\<close>

type_synonym base_init =
  "(name \<times> empirical) list \<Rightarrow> (pyobj \<times> pyobj) list \<Rightarrow> name option \<Rightarrow>
   error + ((name \<times> empirical) list \<times> (pyobj \<times> pyobj) list \<times> name option)"

definition MetropolisHastings_init ::
  "base_init \<Rightarrow> (name \<times> empirical) list \<Rightarrow> (name \<times> name) list \<Rightarrow>
   (pyobj \<times> pyobj) list \<Rightarrow> name option \<Rightarrow> error + metropolis_hastings" where
  "MetropolisHastings_init super_init lv pv d mw =
     (case super_init lv d mw of
        Inl e \<Rightarrow> Inl e
      | Inr (lv', d', mw') \<Rightarrow>
          Inr \<lparr>latent_vars = lv', proposal_vars = pv, data = d', model_wrapper = mw'\<rparr>)"

text \<open>A base constructor that checks nothing and records its arguments.\<close>

definition store_args :: base_init where
  "store_args lv d mw = Inr (lv, d, mw)"

subsection \<open>\<^verbatim>\<open>build_update\<close>, phase by phase\<close>

text \<open>Lines 66-67: the last sample of every latent variable.\<close>

definition last_index :: tensor where
  "last_index = Maximum (Sub T (IntConst 1)) (IntConst 0)"

definition old_sample_of :: "metropolis_hastings \<Rightarrow> (pyobj, tensor) dict" where
  "old_sample_of mh =
     dict_of (map (\<lambda>(z, qz). (RandomVariable z, Gather (params qz) last_index))
                  (latent_vars mh))"

text \<open>Lines 71-78: the values that replace observed random variables.\<close>

fun dict_swap_loop ::
  "(pyobj \<times> pyobj) list \<Rightarrow> (pyobj, tensor) dict \<Rightarrow> (pyobj, tensor) dict" where
  "dict_swap_loop [] dict_swap = dict_swap"
| "dict_swap_loop ((x, qx) # rest) dict_swap =
     (case x of
        RandomVariable _ \<Rightarrow>
          (case qx of
             RandomVariable q \<Rightarrow>
               dict_swap_loop rest (dict_set dict_swap x (Value (Copy q [] ''conditional'')))
           | Concrete v \<Rightarrow> dict_swap_loop rest (dict_set dict_swap x (Data v)))
      | Concrete _ \<Rightarrow> dict_swap_loop rest dict_swap)"

definition dict_swap_of :: "metropolis_hastings \<Rightarrow> (pyobj, tensor) dict" where
  "dict_swap_of mh = dict_swap_loop (data mh) []"

text \<open>What lines 74-78 store for a key that is a random variable.\<close>

definition observed_value :: "pyobj \<Rightarrow> tensor" where
  "observed_value qx =
     (case qx of
        RandomVariable q \<Rightarrow> Value (Copy q [] ''conditional'')
      | Concrete v \<Rightarrow> Data v)"

text \<open>Lines 80-81.\<close>

definition dict_swap_old_of :: "metropolis_hastings \<Rightarrow> (pyobj, tensor) dict" where
  "dict_swap_old_of mh = dict_update (dict_swap_of mh) (old_sample_of mh)"

text \<open>
  Lines 84-92: the proposed sample and the forward proposal densities. Line 92 reads
  \<^verbatim>\<open>new_sample[z]\<close> back, which is the value line 90 has just stored.
\<close>

fun forward_loop ::
  "(pyobj, tensor) dict \<Rightarrow> (name \<times> name) list \<Rightarrow> (pyobj, tensor) dict \<times> tensor \<Rightarrow>
   (pyobj, tensor) dict \<times> tensor" where
  "forward_loop dict_swap_old [] (new_sample, ratio) = (new_sample, ratio)"
| "forward_loop dict_swap_old ((z, proposal_z) # rest) (new_sample, ratio) =
     (let proposal_znew = Copy proposal_z dict_swap_old ''proposal_znew'';
          znew = Value proposal_znew
      in forward_loop dict_swap_old rest
           (dict_set new_sample (RandomVariable z) znew,
            Add ratio (ReduceSum (LogProb proposal_znew znew))))"

definition new_sample_of :: "metropolis_hastings \<Rightarrow> (pyobj, tensor) dict" where
  "new_sample_of mh =
     fst (forward_loop (dict_swap_old_of mh) (proposal_vars mh) ([], Zero))"

definition forward_ratio_of :: "metropolis_hastings \<Rightarrow> tensor" where
  "forward_ratio_of mh =
     snd (forward_loop (dict_swap_old_of mh) (proposal_vars mh) ([], Zero))"

text \<open>Lines 94-95.\<close>

definition dict_swap_new_of :: "metropolis_hastings \<Rightarrow> (pyobj, tensor) dict" where
  "dict_swap_new_of mh = dict_update (dict_swap_of mh) (new_sample_of mh)"

text \<open>Lines 97-101: the reverse proposal densities.\<close>

fun reverse_loop ::
  "(pyobj, tensor) dict \<Rightarrow> (pyobj, tensor) dict \<Rightarrow> (name \<times> name) list \<Rightarrow> tensor \<Rightarrow>
   error + tensor" where
  "reverse_loop dict_swap_new dict_swap_old [] ratio = Inr ratio"
| "reverse_loop dict_swap_new dict_swap_old ((z, proposal_z) # rest) ratio =
     (let proposal_zold = Copy proposal_z dict_swap_new ''proposal_zold''
      in case dict_get dict_swap_old (RandomVariable z) of
           Inl e \<Rightarrow> Inl e
         | Inr v \<Rightarrow>
             reverse_loop dict_swap_new dict_swap_old rest
               (Sub ratio (ReduceSum (LogProb proposal_zold v))))"

text \<open>Lines 104-110: the priors.\<close>

fun prior_loop ::
  "(pyobj, tensor) dict \<Rightarrow> (pyobj, tensor) dict \<Rightarrow> name list \<Rightarrow> tensor \<Rightarrow>
   error + tensor" where
  "prior_loop dict_swap_new dict_swap_old [] ratio = Inr ratio"
| "prior_loop dict_swap_new dict_swap_old (z # rest) ratio =
     (let znew = Copy z dict_swap_new ''znew'';
          zold = Copy z dict_swap_old ''zold''
      in case dict_get dict_swap_new (RandomVariable z) of
           Inl e \<Rightarrow> Inl e
         | Inr vnew \<Rightarrow>
             (case dict_get dict_swap_old (RandomVariable z) of
                Inl e \<Rightarrow> Inl e
              | Inr vold \<Rightarrow>
                  prior_loop dict_swap_new dict_swap_old rest
                    (Sub (Add ratio (ReduceSum (LogProb znew vnew)))
                         (ReduceSum (LogProb zold vold)))))"

text \<open>Lines 112-119: the likelihoods.\<close>

definition likelihood_step ::
  "(pyobj, tensor) dict \<Rightarrow> (pyobj, tensor) dict \<Rightarrow> (pyobj, tensor) dict \<Rightarrow>
   pyobj \<Rightarrow> tensor \<Rightarrow> error + tensor" where
  "likelihood_step dict_swap dict_swap_new dict_swap_old x ratio =
     (case x of
        RandomVariable xn \<Rightarrow>
          (let x_znew = Copy xn dict_swap_new ''x_znew'';
               x_zold = Copy xn dict_swap_old ''x_zold''
           in case dict_get dict_swap x of
                Inl e \<Rightarrow> Inl e
              | Inr v \<Rightarrow>
                  Inr (Sub (Add ratio (ReduceSum (LogProb x_znew v)))
                           (ReduceSum (LogProb x_zold v))))
      | Concrete _ \<Rightarrow> Inr ratio)"

fun likelihood_loop ::
  "(pyobj, tensor) dict \<Rightarrow> (pyobj, tensor) dict \<Rightarrow> (pyobj, tensor) dict \<Rightarrow>
   pyobj list \<Rightarrow> tensor \<Rightarrow> error + tensor" where
  "likelihood_loop dict_swap dict_swap_new dict_swap_old [] ratio = Inr ratio"
| "likelihood_loop dict_swap dict_swap_new dict_swap_old (x # rest) ratio =
     (case likelihood_step dict_swap dict_swap_new dict_swap_old x ratio of
        Inl e \<Rightarrow> Inl e
      | Inr ratio' \<Rightarrow> likelihood_loop dict_swap dict_swap_new dict_swap_old rest ratio')"

text \<open>Lines 103-123: the target density, from the graph or from the model wrapper.\<close>

definition target_ratio :: "metropolis_hastings \<Rightarrow> tensor \<Rightarrow> error + tensor" where
  "target_ratio mh ratio =
     (case model_wrapper mh of
        None \<Rightarrow>
          (case prior_loop (dict_swap_new_of mh) (dict_swap_old_of mh)
                  (iterkeys (latent_vars mh)) ratio of
             Inl e \<Rightarrow> Inl e
           | Inr ratio' \<Rightarrow>
               likelihood_loop (dict_swap_of mh) (dict_swap_new_of mh) (dict_swap_old_of mh)
                 (iterkeys (data mh)) ratio')
      | Some wrapper \<Rightarrow>
          (let x = data mh
           in Inr (Sub (Add ratio (OracleLogProb wrapper x (new_sample_of mh)))
                       (OracleLogProb wrapper x (old_sample_of mh)))))"

definition ratio_of :: "metropolis_hastings \<Rightarrow> error + tensor" where
  "ratio_of mh =
     (case reverse_loop (dict_swap_new_of mh) (dict_swap_old_of mh) (proposal_vars mh)
             (forward_ratio_of mh) of
        Inl e \<Rightarrow> Inl e
      | Inr ratio \<Rightarrow> target_ratio mh ratio)"

text \<open>
  Lines 126-135. \<^verbatim>\<open>tf.cond\<close> belongs to TensorFlow: it raises \<^verbatim>\<open>ValueError\<close> when the
  two branches return different numbers of tensors or none, merges the branches
  position by position, and returns the bare tensor instead of the list when there is
  exactly one (the comment at line 131 relies on it).
\<close>

datatype cond_result = Bare tensor | Listed "tensor list"

definition tf_cond :: "tensor \<Rightarrow> tensor list \<Rightarrow> tensor list \<Rightarrow> error + cond_result" where
  "tf_cond pred res_t res_f =
     (if length res_t \<noteq> length res_f then Inl ValueError
      else if res_t = [] then Inl ValueError
      else (let merges = map (\<lambda>(x, y). Cond pred x y) (zip res_t res_f)
            in case merges of
                 [m] \<Rightarrow> Inr (Bare m)
               | _ \<Rightarrow> Inr (Listed merges)))"

fun as_list :: "cond_result \<Rightarrow> tensor list" where
  "as_list (Bare m) = [m]"
| "as_list (Listed ms) = ms"

definition accept_of :: "tensor \<Rightarrow> tensor" where
  "accept_of ratio = Less (Log UniformSample) ratio"

definition sample_of ::
  "metropolis_hastings \<Rightarrow> tensor \<Rightarrow> error + (pyobj, tensor) dict" where
  "sample_of mh accept =
     (case tf_cond accept (itervalues (new_sample_of mh)) (itervalues (old_sample_of mh)) of
        Inl e \<Rightarrow> Inl e
      | Inr sample_values \<Rightarrow>
          Inr (dict_of (zip (iterkeys (new_sample_of mh)) (as_list sample_values))))"

text \<open>
  Lines 138-143. \<open>variables\<close> are the names of the variables of the default graph, the
  keys of the dictionary of line 139.
\<close>

definition resolve_variable :: "name list \<Rightarrow> empirical \<Rightarrow> error + name" where
  "resolve_variable variables qz =
     (case hinputs (params qz) of
        [] \<Rightarrow> Inl IndexError
      | h1 # _ \<Rightarrow>
          (case hinputs h1 of
             [] \<Rightarrow> Inl IndexError
           | h2 # _ \<Rightarrow>
               if hname h2 \<in> set variables then Inr (hname h2) else Inl KeyError))"

fun assign_loop ::
  "name list \<Rightarrow> (pyobj, tensor) dict \<Rightarrow> (name \<times> empirical) list \<Rightarrow>
   error + assign_op list" where
  "assign_loop variables sample [] = Inr []"
| "assign_loop variables sample ((z, qz) # rest) =
     (case resolve_variable variables qz of
        Inl e \<Rightarrow> Inl e
      | Inr variable \<Rightarrow>
          (case dict_get sample (RandomVariable z) of
             Inl e \<Rightarrow> Inl e
           | Inr v \<Rightarrow>
               (case assign_loop variables sample rest of
                  Inl e \<Rightarrow> Inl e
                | Inr ops \<Rightarrow> Inr (ScatterUpdate variable T v # ops))))"

text \<open>Lines 145-147 and the whole function.\<close>

definition build_update :: "name list \<Rightarrow> metropolis_hastings \<Rightarrow> error + update_op" where
  "build_update variables mh =
     (case ratio_of mh of
        Inl e \<Rightarrow> Inl e
      | Inr ratio \<Rightarrow>
          (let accept = accept_of ratio
           in case sample_of mh accept of
                Inl e \<Rightarrow> Inl e
              | Inr sample \<Rightarrow>
                  (case assign_loop variables sample (latent_vars mh) of
                     Inl e \<Rightarrow> Inl e
                   | Inr assign_ops \<Rightarrow>
                       Inr (Group (assign_ops @
                              [AssignAdd (Select accept (IntConst 1) (IntConst 0))])))))"

subsection \<open>Running the update\<close>

text \<open>
  One session run at step \<open>t\<close>. The truth value of a boolean tensor and the value of
  a sampled or computed floating-point tensor in that run are given by \<open>bval\<close> and
  \<open>fval\<close>; integer scalars are 32-bit and wrap around, \<^verbatim>\<open>tf.maximum\<close> compares them as
  signed numbers. \<^verbatim>\<open>tf.scatter_update\<close> fails on an index outside the variable.
\<close>

fun eval_int :: "(tensor \<Rightarrow> bool) \<Rightarrow> 32 word \<Rightarrow> tensor \<Rightarrow> 32 word option" where
  "eval_int bval t T = Some t"
| "eval_int bval t (IntConst n) = Some n"
| "eval_int bval t (Sub x y) =
     (case eval_int bval t x of
        None \<Rightarrow> None
      | Some a \<Rightarrow> (case eval_int bval t y of None \<Rightarrow> None | Some b \<Rightarrow> Some (a - b)))"
| "eval_int bval t (Maximum x y) =
     (case eval_int bval t x of
        None \<Rightarrow> None
      | Some a \<Rightarrow>
          (case eval_int bval t y of
             None \<Rightarrow> None
           | Some b \<Rightarrow> Some (if sint a < sint b then b else a)))"
| "eval_int bval t (Select c x y) =
     (case eval_int bval t x of
        None \<Rightarrow> None
      | Some a \<Rightarrow>
          (case eval_int bval t y of
             None \<Rightarrow> None
           | Some b \<Rightarrow> Some (if bval c then a else b)))"
| "eval_int bval t _ = None"

fun eval_val :: "(tensor \<Rightarrow> bool) \<Rightarrow> (tensor \<Rightarrow> 'v) \<Rightarrow> tensor \<Rightarrow> 'v" where
  "eval_val bval fval (Cond c x y) =
     (if bval c then eval_val bval fval x else eval_val bval fval y)"
| "eval_val bval fval x = fval x"

record 'v chain =
  buffers :: "name \<Rightarrow> 'v list"
  n_accept :: "32 word"

fun run_op ::
  "(tensor \<Rightarrow> bool) \<Rightarrow> (tensor \<Rightarrow> 'v) \<Rightarrow> 32 word \<Rightarrow> assign_op \<Rightarrow> 'v chain \<Rightarrow>
   'v chain option" where
  "run_op bval fval t (ScatterUpdate variable index v) s =
     (case eval_int bval t index of
        None \<Rightarrow> None
      | Some i \<Rightarrow>
          if 0 \<le> sint i \<and> nat (sint i) < length (buffers s variable)
          then Some (s\<lparr>buffers := (buffers s)
                         (variable := (buffers s variable)[nat (sint i) := eval_val bval fval v])\<rparr>)
          else None)"
| "run_op bval fval t (AssignAdd delta) s =
     (case eval_int bval t delta of
        None \<Rightarrow> None
      | Some d \<Rightarrow> Some (s\<lparr>n_accept := n_accept s + d\<rparr>))"

fun run_ops ::
  "(tensor \<Rightarrow> bool) \<Rightarrow> (tensor \<Rightarrow> 'v) \<Rightarrow> 32 word \<Rightarrow> assign_op list \<Rightarrow> 'v chain \<Rightarrow>
   'v chain option" where
  "run_ops bval fval t [] s = Some s"
| "run_ops bval fval t (op # ops) s =
     (case run_op bval fval t op s of
        None \<Rightarrow> None
      | Some s' \<Rightarrow> run_ops bval fval t ops s')"

subsection \<open>The acceptance ratio as the specification words it\<close>

text \<open>
  The accumulation of steps 4, 6 and 7, each term added to or subtracted from the running
  sum in turn, written with the samples themselves: the reverse proposal and the priors
  are evaluated at \<^verbatim>\<open>old_sample[z]\<close> and \<^verbatim>\<open>new_sample[z]\<close>, the likelihoods at
  \<^verbatim>\<open>dict_swap[x]\<close>. The result is \<open>None\<close> where one of these entries does not exist.
\<close>

fun spec_forward :: "(pyobj, tensor) dict \<Rightarrow> (name \<times> name) list \<Rightarrow> tensor \<Rightarrow> tensor" where
  "spec_forward cond_old [] ratio = ratio"
| "spec_forward cond_old ((z, g) # rest) ratio =
     spec_forward cond_old rest
       (Add ratio (ReduceSum (LogProb (Copy g cond_old ''proposal_znew'')
                                      (Value (Copy g cond_old ''proposal_znew'')))))"

fun spec_reverse ::
  "(pyobj, tensor) dict \<Rightarrow> (pyobj, tensor) dict \<Rightarrow> (name \<times> name) list \<Rightarrow> tensor \<Rightarrow>
   tensor option" where
  "spec_reverse cond_new old_sample [] ratio = Some ratio"
| "spec_reverse cond_new old_sample ((z, g) # rest) ratio =
     (case map_of old_sample (RandomVariable z) of
        None \<Rightarrow> None
      | Some zold \<Rightarrow>
          spec_reverse cond_new old_sample rest
            (Sub ratio (ReduceSum (LogProb (Copy g cond_new ''proposal_zold'') zold))))"

fun spec_prior ::
  "(pyobj, tensor) dict \<Rightarrow> (pyobj, tensor) dict \<Rightarrow> (pyobj, tensor) dict \<Rightarrow>
   (pyobj, tensor) dict \<Rightarrow> name list \<Rightarrow> tensor \<Rightarrow> tensor option" where
  "spec_prior cond_new cond_old new_sample old_sample [] ratio = Some ratio"
| "spec_prior cond_new cond_old new_sample old_sample (z # rest) ratio =
     (case map_of new_sample (RandomVariable z) of
        None \<Rightarrow> None
      | Some znew \<Rightarrow>
          (case map_of old_sample (RandomVariable z) of
             None \<Rightarrow> None
           | Some zold \<Rightarrow>
               spec_prior cond_new cond_old new_sample old_sample rest
                 (Sub (Add ratio (ReduceSum (LogProb (Copy z cond_new ''znew'') znew)))
                      (ReduceSum (LogProb (Copy z cond_old ''zold'') zold)))))"

fun spec_likelihood ::
  "(pyobj, tensor) dict \<Rightarrow> (pyobj, tensor) dict \<Rightarrow> (pyobj, tensor) dict \<Rightarrow>
   pyobj list \<Rightarrow> tensor \<Rightarrow> tensor option" where
  "spec_likelihood observed cond_new cond_old [] ratio = Some ratio"
| "spec_likelihood observed cond_new cond_old (Concrete c # rest) ratio =
     spec_likelihood observed cond_new cond_old rest ratio"
| "spec_likelihood observed cond_new cond_old (RandomVariable x # rest) ratio =
     (case map_of observed (RandomVariable x) of
        None \<Rightarrow> None
      | Some xobs \<Rightarrow>
          spec_likelihood observed cond_new cond_old rest
            (Sub (Add ratio (ReduceSum (LogProb (Copy x cond_new ''x_znew'') xobs)))
                 (ReduceSum (LogProb (Copy x cond_old ''x_zold'') xobs))))"

definition spec_target :: "metropolis_hastings \<Rightarrow> tensor \<Rightarrow> tensor option" where
  "spec_target mh ratio =
     (case model_wrapper mh of
        Some wrapper \<Rightarrow>
          Some (Sub (Add ratio (OracleLogProb wrapper (data mh) (new_sample_of mh)))
                    (OracleLogProb wrapper (data mh) (old_sample_of mh)))
      | None \<Rightarrow>
          (case spec_prior (dict_swap_new_of mh) (dict_swap_old_of mh) (new_sample_of mh)
                  (old_sample_of mh) (map fst (latent_vars mh)) ratio of
             None \<Rightarrow> None
           | Some ratio' \<Rightarrow>
               spec_likelihood (dict_swap_of mh) (dict_swap_new_of mh) (dict_swap_old_of mh)
                 (map fst (data mh)) ratio'))"

definition spec_ratio :: "metropolis_hastings \<Rightarrow> tensor option" where
  "spec_ratio mh =
     (case spec_reverse (dict_swap_new_of mh) (old_sample_of mh) (proposal_vars mh)
             (spec_forward (dict_swap_old_of mh) (proposal_vars mh) Zero) of
        None \<Rightarrow> None
      | Some ratio \<Rightarrow> spec_target mh ratio)"

subsection \<open>Dependencies between tensors\<close>

text \<open>
  \<open>depends_on x d\<close>: the tensor \<open>d\<close> is \<open>x\<close> or one of the tensors \<open>x\<close> is computed
  from, through the inputs of operations, the values a model wrapper is given and the
  dictionaries conditioned copies are built with.
\<close>

fun depends_on :: "tensor \<Rightarrow> tensor \<Rightarrow> bool"
  and copy_depends_on :: "rv_copy \<Rightarrow> tensor \<Rightarrow> bool" where
  "depends_on Zero d = (d = Zero)"
| "depends_on (Data v) d = (d = Data v)"
| "depends_on T d = (d = T)"
| "depends_on (IntConst n) d = (d = IntConst n)"
| "depends_on (Gather h i) d = (d = Gather h i \<or> depends_on i d)"
| "depends_on (Maximum a b) d = (d = Maximum a b \<or> depends_on a d \<or> depends_on b d)"
| "depends_on (Sub a b) d = (d = Sub a b \<or> depends_on a d \<or> depends_on b d)"
| "depends_on (Add a b) d = (d = Add a b \<or> depends_on a d \<or> depends_on b d)"
| "depends_on (ReduceSum a) d = (d = ReduceSum a \<or> depends_on a d)"
| "depends_on (Value c) d = (d = Value c \<or> copy_depends_on c d)"
| "depends_on (LogProb c a) d = (d = LogProb c a \<or> copy_depends_on c d \<or> depends_on a d)"
| "depends_on (OracleLogProb w x sample) d =
     (d = OracleLogProb w x sample \<or> (\<exists>(k, v) \<in> set sample. depends_on v d))"
| "depends_on UniformSample d = (d = UniformSample)"
| "depends_on (Log a) d = (d = Log a \<or> depends_on a d)"
| "depends_on (Less a b) d = (d = Less a b \<or> depends_on a d \<or> depends_on b d)"
| "depends_on (Cond c a b) d =
     (d = Cond c a b \<or> depends_on c d \<or> depends_on a d \<or> depends_on b d)"
| "depends_on (Select c a b) d =
     (d = Select c a b \<or> depends_on c d \<or> depends_on a d \<or> depends_on b d)"
| "copy_depends_on (Copy rv swap scope) d = (\<exists>(k, v) \<in> set swap. depends_on v d)"

subsection \<open>Example configurations\<close>

text \<open>
  One latent variable \<open>z\<close> with proposal \<open>g\<close>, whose store reads its variable \<open>v1\<close>
  through two identity operations; the data bind a random variable to an auxiliary random
  variable, a random variable to a value and a placeholder to a value.
\<close>

definition example_structured :: metropolis_hastings where
  "example_structured =
     \<lparr>latent_vars = [(''z'', Empirical (Handle ''i1'' [Handle ''r1'' [Handle ''v1'' []]]))],
      proposal_vars = [(''z'', ''g'')],
      data = [(RandomVariable ''x'', RandomVariable ''qx''),
              (RandomVariable ''y'', Concrete ''ydata''),
              (Concrete ''ph'', Concrete ''phdata'')],
      model_wrapper = None\<rparr>"


text \<open>
  Two latent variables whose dictionaries have the same keys, inserted in different orders.
\<close>

definition example_swapped :: metropolis_hastings where
  "example_swapped =
     \<lparr>latent_vars = [(''z1'', Empirical (Handle ''i1'' [Handle ''r1'' [Handle ''v1'' []]])),
                     (''z2'', Empirical (Handle ''i2'' [Handle ''r2'' [Handle ''v2'' []]]))],
      proposal_vars = [(''z2'', ''g2''), (''z1'', ''g1'')],
      data = [],
      model_wrapper = Some ''model''\<rparr>"

text \<open>
  One latent variable whose store reads the variable \<open>v1\<close> through three operations.
\<close>

definition example_deep :: metropolis_hastings where
  "example_deep =
     \<lparr>latent_vars =
        [(''z'', Empirical (Handle ''p'' [Handle ''i2'' [Handle ''i1'' [Handle ''v1'' []]]]))],
      proposal_vars = [(''z'', ''g'')],
      data = [],
      model_wrapper = None\<rparr>"

text \<open>
  A proposal for \<open>x\<close>, which is observed and not latent: the key sets differ.
\<close>

definition example_mismatch :: metropolis_hastings where
  "example_mismatch =
     \<lparr>latent_vars = [(''z'', Empirical (Handle ''i1'' [Handle ''r1'' [Handle ''v1'' []]]))],
      proposal_vars = [(''z'', ''g''), (''x'', ''gx'')],
      data = [(RandomVariable ''x'', Concrete ''xdata'')],
      model_wrapper = None\<rparr>"

definition example_variables :: "name list" where
  "example_variables = [''v1'', ''v2'']"

section \<open>Properties\<close>

subsection \<open>Dictionaries\<close>

lemma map_of_dict_set: "map_of (dict_set d k v) = (map_of d)(k \<mapsto> v)"
  by (induction d) auto

lemma keys_dict_set: "fst ` set (dict_set d k v) = insert k (fst ` set d)"
  by (induction d) force+

lemma dict_set_append: "k \<notin> fst ` set d \<Longrightarrow> dict_set d k v = d @ [(k, v)]"
  by (induction d) auto

lemma distinct_dict_set: "distinct (map fst d) \<Longrightarrow> distinct (map fst (dict_set d k v))"
  by (induction d) (auto simp: keys_dict_set)

lemma dict_update_append:
  "distinct (map fst (d @ other)) \<Longrightarrow> dict_update d other = d @ other"
proof (induction other arbitrary: d)
  case Nil
  then show ?case by simp
next
  case (Cons kv other)
  obtain k v where kv: "kv = (k, v)" by (cases kv)
  from Cons.prems kv have notin: "k \<notin> fst ` set d" by auto
  from Cons.prems kv have "distinct (map fst ((d @ [(k, v)]) @ other))" by auto
  then have "dict_update (d @ [(k, v)]) other = (d @ [(k, v)]) @ other" by (rule Cons.IH)
  with notin kv show ?case by (simp add: dict_set_append)
qed

lemma dict_of_distinct: "distinct (map fst kvs) \<Longrightarrow> dict_of kvs = kvs"
  by (simp add: dict_of_def dict_update_append)

lemma distinct_dict_update:
  "distinct (map fst d) \<Longrightarrow> distinct (map fst (dict_update d other))"
  by (induction other arbitrary: d) (auto simp: distinct_dict_set)

lemma distinct_dict_of: "distinct (map fst (dict_of kvs))"
  by (simp add: dict_of_def distinct_dict_update)

lemma keys_dict_update: "fst ` set (dict_update d other) = fst ` set d \<union> fst ` set other"
proof (induction other arbitrary: d)
  case Nil
  then show ?case by simp
next
  case (Cons kv other)
  obtain k v where kv: "kv = (k, v)" by (cases kv)
  have "fst ` set (dict_update (dict_set d k v) other) =
        fst ` set (dict_set d k v) \<union> fst ` set other"
    by (rule Cons.IH)
  then show ?case by (simp add: kv keys_dict_set)
qed

lemma keys_dict_of: "fst ` set (dict_of kvs) = fst ` set kvs"
  by (simp add: dict_of_def keys_dict_update)

lemma map_of_dict_update_notin:
  "k \<notin> fst ` set other \<Longrightarrow> map_of (dict_update d other) k = map_of d k"
  by (induction other arbitrary: d) (auto simp: map_of_dict_set)

lemma map_of_dict_update_in:
  "distinct (map fst other) \<Longrightarrow> k \<in> fst ` set other \<Longrightarrow>
   map_of (dict_update d other) k = map_of other k"
proof (induction other arbitrary: d)
  case Nil
  then show ?case by simp
next
  case (Cons kv other)
  obtain k' v' where kv: "kv = (k', v')" by (cases kv)
  show ?case
  proof (cases "k = k'")
    case True
    with Cons.prems kv have "k \<notin> fst ` set other" by auto
    then have "map_of (dict_update (dict_set d k' v') other) k = map_of (dict_set d k' v') k"
      by (rule map_of_dict_update_notin)
    with True kv show ?thesis by (simp add: map_of_dict_set)
  next
    case False
    with Cons.prems kv have "distinct (map fst other)" "k \<in> fst ` set other" by auto
    then have "map_of (dict_update (dict_set d k' v') other) k = map_of other k"
      by (rule Cons.IH)
    with False kv show ?thesis by simp
  qed
qed

lemma map_of_in_keys: "k \<in> fst ` set d \<Longrightarrow> \<exists>v. map_of d k = Some v"
  by (induction d) auto


subsection \<open>The phases of \<^verbatim>\<open>build_update\<close>\<close>

lemma forward_loop_fst:
  "fst (forward_loop dso pv (ns, r)) =
   dict_update ns (map (\<lambda>(z, g). (RandomVariable z, Value (Copy g dso ''proposal_znew''))) pv)"
  by (induction pv arbitrary: ns r) (auto simp: Let_def)

lemma forward_loop_snd: "snd (forward_loop dso pv (ns, r)) = spec_forward dso pv r"
  by (induction pv arbitrary: ns r) (auto simp: Let_def)

lemma new_sample_of_eq:
  "new_sample_of mh =
   dict_of (map (\<lambda>(z, g). (RandomVariable z,
                              Value (Copy g (dict_swap_old_of mh) ''proposal_znew'')))
                (proposal_vars mh))"
  by (simp add: new_sample_of_def forward_loop_fst dict_of_def)

lemma keys_new_sample:
  "fst ` set (new_sample_of mh) = RandomVariable ` fst ` set (proposal_vars mh)"
  by (force simp: new_sample_of_eq keys_dict_of image_image split_def)

lemma keys_old_sample:
  "fst ` set (old_sample_of mh) = RandomVariable ` fst ` set (latent_vars mh)"
  by (force simp: old_sample_of_def keys_dict_of image_image split_def)

lemma distinct_new_sample: "distinct (map fst (new_sample_of mh))"
  by (simp add: new_sample_of_eq distinct_dict_of)

lemma distinct_old_sample: "distinct (map fst (old_sample_of mh))"
  by (simp add: old_sample_of_def distinct_dict_of)

lemma dict_swap_old_lookup:
  "z \<in> fst ` set (latent_vars mh) \<Longrightarrow>
   map_of (dict_swap_old_of mh) (RandomVariable z) = map_of (old_sample_of mh) (RandomVariable z)"
  unfolding dict_swap_old_of_def
  by (rule map_of_dict_update_in) (simp_all add: distinct_old_sample keys_old_sample)

lemma dict_swap_new_lookup:
  "z \<in> fst ` set (proposal_vars mh) \<Longrightarrow>
   map_of (dict_swap_new_of mh) (RandomVariable z) = map_of (new_sample_of mh) (RandomVariable z)"
  unfolding dict_swap_new_of_def
  by (rule map_of_dict_update_in) (simp_all add: distinct_new_sample keys_new_sample)

lemma old_sample_present:
  "z \<in> fst ` set (latent_vars mh) \<Longrightarrow> \<exists>v. map_of (old_sample_of mh) (RandomVariable z) = Some v"
  by (rule map_of_in_keys) (simp add: keys_old_sample)

lemma new_sample_present:
  "z \<in> fst ` set (proposal_vars mh) \<Longrightarrow> \<exists>v. map_of (new_sample_of mh) (RandomVariable z) = Some v"
  by (rule map_of_in_keys) (simp add: keys_new_sample)

lemma reverse_loop_spec:
  "\<forall>z \<in> fst ` set ps. \<exists>v. map_of dso (RandomVariable z) = Some v \<and>
                               map_of old (RandomVariable z) = Some v \<Longrightarrow>
   \<exists>r'. reverse_loop dsn dso ps r = Inr r' \<and> spec_reverse dsn old ps r = Some r'"
proof (induction ps arbitrary: r)
  case Nil
  then show ?case by simp
next
  case (Cons p ps)
  obtain z g where p: "p = (z, g)" by (cases p)
  from Cons.prems p obtain v where
    v: "map_of dso (RandomVariable z) = Some v" "map_of old (RandomVariable z) = Some v"
    by auto
  from Cons.prems have
    "\<forall>z \<in> fst ` set ps. \<exists>v. map_of dso (RandomVariable z) = Some v \<and>
                                map_of old (RandomVariable z) = Some v"
    by simp
  from Cons.IH [OF this] show ?case
    by (simp add: p v dict_get_def)
qed

lemma prior_loop_spec:
  "\<forall>z \<in> set zs. (\<exists>v. map_of dsn (RandomVariable z) = Some v \<and>
                          map_of new (RandomVariable z) = Some v) \<and>
                     (\<exists>v. map_of dso (RandomVariable z) = Some v \<and>
                          map_of old (RandomVariable z) = Some v) \<Longrightarrow>
   \<exists>r'. prior_loop dsn dso zs r = Inr r' \<and> spec_prior dsn dso new old zs r = Some r'"
proof (induction zs arbitrary: r)
  case Nil
  then show ?case by simp
next
  case (Cons z zs)
  from Cons.prems obtain vn vo where
    v: "map_of dsn (RandomVariable z) = Some vn" "map_of new (RandomVariable z) = Some vn"
       "map_of dso (RandomVariable z) = Some vo" "map_of old (RandomVariable z) = Some vo"
    by auto
  from Cons.prems have
    "\<forall>z \<in> set zs. (\<exists>v. map_of dsn (RandomVariable z) = Some v \<and>
                          map_of new (RandomVariable z) = Some v) \<and>
                     (\<exists>v. map_of dso (RandomVariable z) = Some v \<and>
                          map_of old (RandomVariable z) = Some v)"
    by simp
  from Cons.IH [OF this] show ?case
    by (simp add: v dict_get_def)
qed

lemma likelihood_loop_spec:
  "\<forall>x \<in> set xs. is_RandomVariable x \<longrightarrow> (\<exists>v. map_of ds x = Some v) \<Longrightarrow>
   \<exists>r'. likelihood_loop ds dsn dso xs r = Inr r' \<and> spec_likelihood ds dsn dso xs r = Some r'"
proof (induction xs arbitrary: r)
  case Nil
  then show ?case by simp
next
  case (Cons x xs)
  from Cons.prems have rest:
    "\<forall>x \<in> set xs. is_RandomVariable x \<longrightarrow> (\<exists>v. map_of ds x = Some v)"
    by simp
  show ?case
  proof (cases x)
    case (RandomVariable xn)
    with Cons.prems obtain v where v: "map_of ds (RandomVariable xn) = Some v" by auto
    from Cons.IH [OF rest] show ?thesis
      by (simp add: RandomVariable v likelihood_step_def dict_get_def)
  next
    case (Concrete c)
    from Cons.IH [OF rest] show ?thesis
      by (simp add: Concrete likelihood_step_def)
  qed
qed

lemma keys_dict_swap_loop:
  "fst ` set (dict_swap_loop dat d) =
   fst ` set d \<union> {x \<in> fst ` set dat. is_RandomVariable x}"
proof (induction dat arbitrary: d)
  case Nil
  then show ?case by simp
next
  case (Cons p dat)
  obtain x qx where p: "p = (x, qx)" by (cases p)
  show ?case
    by (cases x; cases qx) (auto simp: p Cons.IH keys_dict_set)
qed

lemma dict_swap_present:
  "x \<in> fst ` set (data mh) \<Longrightarrow> is_RandomVariable x \<Longrightarrow> \<exists>v. map_of (dict_swap_of mh) x = Some v"
  by (rule map_of_in_keys) (simp add: dict_swap_of_def keys_dict_swap_loop)

subsection \<open>The acceptance ratio\<close>

lemma ratio_of_refines_spec:
  assumes keys: "fst ` set (proposal_vars mh) = fst ` set (latent_vars mh)"
  shows "\<exists>r. ratio_of mh = Inr r \<and> spec_ratio mh = Some r"
proof -
  have old: "\<forall>z \<in> fst ` set (proposal_vars mh).
               \<exists>v. map_of (dict_swap_old_of mh) (RandomVariable z) = Some v \<and>
                   map_of (old_sample_of mh) (RandomVariable z) = Some v"
    using keys dict_swap_old_lookup old_sample_present by metis
  have new: "\<forall>z \<in> fst ` set (proposal_vars mh).
               \<exists>v. map_of (dict_swap_new_of mh) (RandomVariable z) = Some v \<and>
                   map_of (new_sample_of mh) (RandomVariable z) = Some v"
    using dict_swap_new_lookup new_sample_present by metis
  obtain r2 where r2:
    "reverse_loop (dict_swap_new_of mh) (dict_swap_old_of mh) (proposal_vars mh)
       (forward_ratio_of mh) = Inr r2"
    "spec_reverse (dict_swap_new_of mh) (old_sample_of mh) (proposal_vars mh)
       (forward_ratio_of mh) = Some r2"
    using reverse_loop_spec [OF old] by blast
  have fwd: "forward_ratio_of mh = spec_forward (dict_swap_old_of mh) (proposal_vars mh) Zero"
    by (simp add: forward_ratio_of_def forward_loop_snd)
  have "\<exists>r. target_ratio mh r2 = Inr r \<and> spec_target mh r2 = Some r"
  proof (cases "model_wrapper mh")
    case (Some w)
    then show ?thesis by (simp add: target_ratio_def spec_target_def Let_def)
  next
    case None
    have both: "\<forall>z \<in> set (map fst (latent_vars mh)).
            (\<exists>v. map_of (dict_swap_new_of mh) (RandomVariable z) = Some v \<and>
                 map_of (new_sample_of mh) (RandomVariable z) = Some v) \<and>
            (\<exists>v. map_of (dict_swap_old_of mh) (RandomVariable z) = Some v \<and>
                 map_of (old_sample_of mh) (RandomVariable z) = Some v)"
      using old new keys by simp
    obtain r3 where r3:
      "prior_loop (dict_swap_new_of mh) (dict_swap_old_of mh) (map fst (latent_vars mh)) r2
         = Inr r3"
      "spec_prior (dict_swap_new_of mh) (dict_swap_old_of mh) (new_sample_of mh)
         (old_sample_of mh) (map fst (latent_vars mh)) r2 = Some r3"
      using prior_loop_spec [OF both] by blast
    have obs: "\<forall>x \<in> set (map fst (data mh)).
                 is_RandomVariable x \<longrightarrow> (\<exists>v. map_of (dict_swap_of mh) x = Some v)"
      using dict_swap_present by simp
    from likelihood_loop_spec [OF obs] show ?thesis
      by (simp add: target_ratio_def spec_target_def None r3 iterkeys_def)
  qed
  then show ?thesis
    by (simp add: ratio_of_def spec_ratio_def r2 fwd [symmetric])
qed

lemma ratio_of_defined:
  "fst ` set (proposal_vars mh) = fst ` set (latent_vars mh) \<Longrightarrow> \<exists>r. ratio_of mh = Inr r"
  using ratio_of_refines_spec by blast

text \<open>
  Claim C1. When the proposal dictionary and the latent dictionary have the same keys,
  building the ratio raises nothing and the tensor built is the one the specification
  describes: starting from \<^verbatim>\<open>0.0\<close>, for each proposal in turn the summed log-density
  of the forward proposal (conditioned on \<^verbatim>\<open>dict_swap_old\<close>) at \<^verbatim>\<open>new_sample[z]\<close> is
  added; then for each proposal in turn the summed log-density of the reverse proposal
  (conditioned on \<^verbatim>\<open>dict_swap_new\<close>) at \<^verbatim>\<open>old_sample[z]\<close> is subtracted; then, without
  a model wrapper, for each latent variable the prior at \<^verbatim>\<open>new_sample[z]\<close> is added and
  the prior at \<^verbatim>\<open>old_sample[z]\<close> subtracted, and for each random variable of the data
  the likelihood conditioned on the new sample is added and the one conditioned on the
  old sample subtracted, both at \<^verbatim>\<open>dict_swap[x]\<close>; with a model wrapper its log-density
  at the new sample is added and at the old sample subtracted.
\<close>

theorem ratio_accumulation_order:
  assumes "fst ` set (proposal_vars mh) = fst ` set (latent_vars mh)"
  shows "\<exists>r. ratio_of mh = Inr r \<and> spec_ratio mh = Some r"
  using assms by (rule ratio_of_refines_spec)

theorem ratio_accumulation_order_witness:
  "fst ` set (proposal_vars example_structured) = fst ` set (latent_vars example_structured) \<and>
   (\<exists>r. ratio_of example_structured = Inr r \<and> spec_ratio example_structured = Some r)"
  using ratio_accumulation_order [of example_structured]
  by (simp add: example_structured_def)

subsection \<open>The substitution dictionary\<close>

lemma dict_swap_loop_eq:
  "dict_swap_loop dat d =
   dict_update d (map (\<lambda>(x, qx). (x, observed_value qx))
                      (filter (\<lambda>(x, qx). is_RandomVariable x) dat))"
proof (induction dat arbitrary: d)
  case Nil
  then show ?case by simp
next
  case (Cons p dat)
  obtain x qx where p: "p = (x, qx)" by (cases p)
  show ?case
    by (cases x; cases qx) (simp_all add: p Cons.IH observed_value_def)
qed

lemma distinct_observed:
  assumes "distinct (map fst dat)"
  shows "distinct (map fst (map (\<lambda>(x, qx). (x, f qx)) (filter P dat)))"
proof -
  have eq: "map fst (map (\<lambda>(x, qx). (x, f qx)) (filter P dat)) = map fst (filter P dat)"
    by (simp add: comp_def split_def)
  show ?thesis
    unfolding eq using assms by (rule distinct_map_filter)
qed

lemma dict_swap_of_distinct:
  assumes "distinct (map fst (data mh))"
  shows "dict_swap_of mh = map (\<lambda>(x, qx). (x, observed_value qx))
                               (filter (\<lambda>(x, qx). is_RandomVariable x) (data mh))"
proof -
  let ?l = "map (\<lambda>(x, qx). (x, observed_value qx))
                (filter (\<lambda>(x, qx). is_RandomVariable x) (data mh))"
  have "distinct (map fst ?l)" using assms by (rule distinct_observed)
  then have "distinct (map fst ([] @ ?l))" by simp
  then have "dict_update [] ?l = [] @ ?l" by (rule dict_update_append)
  then show ?thesis by (simp add: dict_swap_of_def dict_swap_loop_eq)
qed

lemma map_of_observed:
  "distinct (map fst dat) \<Longrightarrow> (x, qx) \<in> set dat \<Longrightarrow> is_RandomVariable x \<Longrightarrow>
   map_of (map (\<lambda>(x, qx). (x, observed_value qx))
               (filter (\<lambda>(x, qx). is_RandomVariable x) dat)) x = Some (observed_value qx)"
proof -
  assume d: "distinct (map fst dat)" and m: "(x, qx) \<in> set dat" and rv: "is_RandomVariable x"
  let ?l = "map (\<lambda>(x, qx). (x, observed_value qx)) (filter (\<lambda>(x, qx). is_RandomVariable x) dat)"
  have "distinct (map fst ?l)" using d by (rule distinct_observed)
  moreover have "(x, observed_value qx) \<in> set ?l" using m rv by force
  ultimately show ?thesis by (rule map_of_is_SomeI)
qed

lemma dict_swap_lookup:
  "distinct (map fst (data mh)) \<Longrightarrow> (x, qx) \<in> set (data mh) \<Longrightarrow> is_RandomVariable x \<Longrightarrow>
   map_of (dict_swap_of mh) x = Some (observed_value qx)"
  by (simp add: dict_swap_of_distinct map_of_observed)

lemma dict_swap_no_concrete: "map_of (dict_swap_of mh) (Concrete c) = None"
proof -
  have "Concrete c \<notin> fst ` set (dict_swap_of mh)"
    by (simp add: dict_swap_of_def keys_dict_swap_loop)
  then show ?thesis by (simp add: map_of_eq_None_iff)
qed



text \<open>
  Claim C8, as stated, fails: a key of the data that is not a random variable (here the
  placeholder \<open>ph\<close>) gets no entry in \<^verbatim>\<open>dict_swap\<close>; line 73 skips it.
\<close>

theorem dict_swap_skips_other_keys:
  "Concrete ''ph'' \<in> fst ` set (data example_structured) \<and>
   dict_get (dict_swap_of example_structured) (Concrete ''ph'') = Inl KeyError"
  by (simp add: example_structured_def dict_swap_of_def dict_get_def)

text \<open>
  Claim C8, amended. For every entry of the data whose key is a random variable,
  \<^verbatim>\<open>dict_swap\<close> holds a value for that key: one draw from the copy of the mapped random
  variable when the mapped value is a random variable, the mapped value itself otherwise.
  A key that is not a random variable has no entry.
\<close>

theorem dict_swap_random_variable_keys:
  assumes "distinct (map fst (data mh))" and "(x, qx) \<in> set (data mh)"
  shows "dict_get (dict_swap_of mh) x =
         (case x of
            RandomVariable _ \<Rightarrow>
              Inr (case qx of
                     RandomVariable q \<Rightarrow> Value (Copy q [] ''conditional'')
                   | Concrete v \<Rightarrow> Data v)
          | Concrete _ \<Rightarrow> Inl KeyError)"
proof (cases x)
  case (RandomVariable xn)
  with assms have "map_of (dict_swap_of mh) x = Some (observed_value qx)"
    by (simp add: dict_swap_lookup)
  then show ?thesis by (simp add: RandomVariable dict_get_def observed_value_def)
next
  case (Concrete c)
  then show ?thesis by (simp add: dict_get_def dict_swap_no_concrete)
qed

theorem dict_swap_random_variable_keys_witness:
  "distinct (map fst (data example_structured)) \<and>
   (RandomVariable ''x'', RandomVariable ''qx'') \<in> set (data example_structured) \<and>
   dict_get (dict_swap_of example_structured) (RandomVariable ''x'') =
     Inr (Value (Copy ''qx'' [] ''conditional''))"
  using dict_swap_random_variable_keys
          [of example_structured "RandomVariable ''x''" "RandomVariable ''qx''"]
  by (simp add: example_structured_def)



subsection \<open>The model wrapper\<close>














subsection \<open>Resolving the variable of a store\<close>

lemma assign_loop_resolves:
  "assign_loop variables sample lv = Inr ops \<Longrightarrow> (z, qz) \<in> set lv \<Longrightarrow>
   \<exists>v. resolve_variable variables qz = Inr v"
  by (induction lv arbitrary: ops) (auto split: sum.splits)

lemma build_update_assign:
  "build_update variables mh = Inr u \<Longrightarrow>
   \<exists>ratio sample ops. ratio_of mh = Inr ratio \<and> sample_of mh (accept_of ratio) = Inr sample \<and>
     assign_loop variables sample (latent_vars mh) = Inr ops \<and>
     u = Group (ops @ [AssignAdd (Select (accept_of ratio) (IntConst 1) (IntConst 0))])"
  by (auto simp: build_update_def Let_def split: sum.splits)

text \<open>
  Claim C5, as stated, fails: a store that reads the variable \<open>v1\<close> of the graph through
  three operations is not resolved, although its root variable is unique.
\<close>

theorem resolve_three_links_fails:
  "resolve_variable [''v1'']
     (Empirical (Handle ''p'' [Handle ''i2'' [Handle ''i1'' [Handle ''v1'' []]]])) =
   Inl KeyError"
  by (simp add: resolve_variable_def)

text \<open>
  Claim C5, amended. The variable of a store is the tensor two input links below the
  parameter handle (\<^verbatim>\<open>params.op.inputs[0].op.inputs[0]\<close>): resolution succeeds exactly
  when that tensor exists and its name is the name of a variable of the graph. When the
  resolution of some latent variable's store fails, \<^verbatim>\<open>build_update\<close> raises and builds no
  update operation, so nothing is written.
\<close>

theorem resolve_follows_two_links:
  "(resolve_variable variables qz = Inr v \<longleftrightarrow>
      (\<exists>n1 rest1 n2 rest2 h2.
         params qz = Handle n1 (Handle n2 (h2 # rest2) # rest1) \<and>
         hname h2 = v \<and> v \<in> set variables)) \<and>
   ((z, qz) \<in> set (latent_vars mh) \<and> (\<forall>v'. resolve_variable variables qz \<noteq> Inr v') \<longrightarrow>
      (\<exists>e. build_update variables mh = Inl e))"
proof
  show "resolve_variable variables qz = Inr v \<longleftrightarrow>
      (\<exists>n1 rest1 n2 rest2 h2.
         params qz = Handle n1 (Handle n2 (h2 # rest2) # rest1) \<and>
         hname h2 = v \<and> v \<in> set variables)"
  proof (cases "params qz")
    case (Handle n1 ins1)
    show ?thesis
    proof (cases ins1)
      case Nil
      with Handle show ?thesis by (simp add: resolve_variable_def)
    next
      case (Cons h1 rest1)
      obtain n2 ins2 where h1: "h1 = Handle n2 ins2" by (cases h1)
      show ?thesis
        by (cases ins2) (auto simp: resolve_variable_def Handle Cons h1)
    qed
  qed
next
  show "(z, qz) \<in> set (latent_vars mh) \<and> (\<forall>v'. resolve_variable variables qz \<noteq> Inr v') \<longrightarrow>
      (\<exists>e. build_update variables mh = Inl e)"
  proof
    assume a: "(z, qz) \<in> set (latent_vars mh) \<and> (\<forall>v'. resolve_variable variables qz \<noteq> Inr v')"
    show "\<exists>e. build_update variables mh = Inl e"
    proof (cases "build_update variables mh")
      case (Inl e)
      then show ?thesis by simp
    next
      case (Inr u)
      from build_update_assign [OF Inr] a assign_loop_resolves show ?thesis by blast
    qed
  qed
qed

theorem resolve_follows_two_links_witness:
  "(resolve_variable example_variables
      (Empirical (Handle ''i1'' [Handle ''r1'' [Handle ''v1'' []]])) = Inr ''v1'') \<and>
   (''z'', Empirical (Handle ''p'' [Handle ''i2'' [Handle ''i1'' [Handle ''v1'' []]]]))
      \<in> set (latent_vars example_deep) \<and>
   (\<forall>v'. resolve_variable example_variables
      (Empirical (Handle ''p'' [Handle ''i2'' [Handle ''i1'' [Handle ''v1'' []]]])) \<noteq> Inr v') \<and>
   (\<exists>e. build_update example_variables example_deep = Inl e)"
proof -
  have a: "(''z'', Empirical (Handle ''p'' [Handle ''i2'' [Handle ''i1'' [Handle ''v1'' []]]]))
      \<in> set (latent_vars example_deep)"
    by (simp add: example_deep_def)
  have b: "\<forall>v'. resolve_variable example_variables
      (Empirical (Handle ''p'' [Handle ''i2'' [Handle ''i1'' [Handle ''v1'' []]]])) \<noteq> Inr v'"
    by (simp add: resolve_variable_def example_variables_def)
  have c: "resolve_variable example_variables
      (Empirical (Handle ''i1'' [Handle ''r1'' [Handle ''v1'' []]])) = Inr ''v1''"
    using resolve_follows_two_links
            [of example_variables "Empirical (Handle ''i1'' [Handle ''r1'' [Handle ''v1'' []]])"
                "''v1''"]
    by (simp add: example_variables_def)
  from a b c resolve_follows_two_links
       [of example_variables
           "Empirical (Handle ''p'' [Handle ''i2'' [Handle ''i1'' [Handle ''v1'' []]]])" _
           "''z''" example_deep]
  show ?thesis by blast
qed

subsection \<open>Accepting or rejecting\<close>

lemma tf_cond_as_list:
  assumes "length ns = length os" and "ns \<noteq> []"
  shows "\<exists>res. tf_cond acc ns os = Inr res \<and>
               as_list res = map (\<lambda>(x, y). Cond acc x y) (zip ns os)"
proof (cases "map (\<lambda>(x, y). Cond acc x y) (zip ns os)")
  case Nil
  with assms show ?thesis by (cases ns; cases os) simp_all
next
  case (Cons m ms)
  with assms show ?thesis
    by (cases ms) (simp_all add: tf_cond_def)
qed

lemma tf_cond_Inr:
  assumes "tf_cond acc ns os = Inr res"
  shows "length ns = length os \<and> ns \<noteq> [] \<and>
         as_list res = map (\<lambda>(x, y). Cond acc x y) (zip ns os)"
proof -
  from assms have l: "length ns = length os" and n: "ns \<noteq> []"
    by (auto simp: tf_cond_def split: if_splits)
  from tf_cond_as_list [OF l n, of acc] assms l n show ?thesis by auto
qed

lemma sample_of_Inr:
  assumes "sample_of mh acc = Inr sample"
  shows "length (new_sample_of mh) = length (old_sample_of mh) \<and>
         sample = dict_of (zip (map fst (new_sample_of mh))
                    (map (\<lambda>(x, y). Cond acc x y)
                       (zip (map snd (new_sample_of mh)) (map snd (old_sample_of mh)))))"
proof -
  from assms obtain res where
    res: "tf_cond acc (itervalues (new_sample_of mh)) (itervalues (old_sample_of mh)) = Inr res"
    and s: "sample = dict_of (zip (iterkeys (new_sample_of mh)) (as_list res))"
    by (auto simp: sample_of_def split: sum.splits)
  from tf_cond_Inr [OF res] s show ?thesis
    by (simp add: itervalues_def iterkeys_def)
qed

lemma keys_sample:
  assumes "sample_of mh acc = Inr sample"
  shows "fst ` set sample = RandomVariable ` fst ` set (proposal_vars mh)"
proof -
  let ?ks = "map fst (new_sample_of mh)"
  let ?vs = "map (\<lambda>(x, y). Cond acc x y)
               (zip (map snd (new_sample_of mh)) (map snd (old_sample_of mh)))"
  from sample_of_Inr [OF assms] have
    l: "length (new_sample_of mh) = length (old_sample_of mh)" and
    s: "sample = dict_of (zip ?ks ?vs)"
    by simp_all
  from l have "length ?ks = length ?vs" by simp
  then have "map fst (zip ?ks ?vs) = ?ks" by (rule map_fst_zip)
  then have "fst ` set (zip ?ks ?vs) = set ?ks" by (metis set_map)
  then show ?thesis
    by (simp add: s keys_dict_of keys_new_sample [symmetric])
qed

lemma assign_loop_keys:
  "assign_loop variables sample lv = Inr ops \<Longrightarrow> (z, qz) \<in> set lv \<Longrightarrow>
   RandomVariable z \<in> fst ` set sample"
proof (induction lv arbitrary: ops)
  case Nil
  then show ?case by simp
next
  case (Cons p lv)
  obtain z' qz' where p: "p = (z', qz')" by (cases p)
  from Cons.prems(1) p obtain v ops' where
    g: "dict_get sample (RandomVariable z') = Inr v" and
    r: "assign_loop variables sample lv = Inr ops'"
    by (auto split: sum.splits)
  from g have here: "RandomVariable z' \<in> fst ` set sample"
    by (auto simp: dict_get_def split: option.splits dest: map_of_SomeD intro: rev_image_eqI)
  show ?case
  proof (cases "(z, qz) = (z', qz')")
    case True
    with here show ?thesis by simp
  next
    case False
    with Cons.prems(2) p have "(z, qz) \<in> set lv" by auto
    with Cons.IH [OF r] show ?thesis by simp
  qed
qed

lemma length_new_sample:
  assumes "distinct (map fst (proposal_vars mh))"
  shows "length (new_sample_of mh) = length (proposal_vars mh)"
proof -
  let ?l = "map (\<lambda>(z, g). (RandomVariable z,
                              Value (Copy g (dict_swap_old_of mh) ''proposal_znew'')))
                (proposal_vars mh)"
  have "map fst ?l = map RandomVariable (map fst (proposal_vars mh))"
    by (simp add: comp_def split_def)
  with assms have "distinct (map fst ?l)"
    by (simp add: distinct_map inj_on_def del: map_map)
  then have "dict_of ?l = ?l" by (rule dict_of_distinct)
  then show ?thesis by (simp add: new_sample_of_eq)
qed

lemma length_old_sample:
  assumes "distinct (map fst (latent_vars mh))"
  shows "length (old_sample_of mh) = length (latent_vars mh)"
proof -
  let ?l = "map (\<lambda>(z, qz). (RandomVariable z, Gather (params qz) last_index)) (latent_vars mh)"
  have "map fst ?l = map RandomVariable (map fst (latent_vars mh))"
    by (simp add: comp_def split_def)
  with assms have "distinct (map fst ?l)"
    by (simp add: distinct_map inj_on_def del: map_map)
  then have "dict_of ?l = ?l" by (rule dict_of_distinct)
  then show ?thesis by (simp add: old_sample_of_def)
qed

lemma build_update_single:
  assumes lv: "latent_vars mh = [(z, qz)]" and pv: "proposal_vars mh = [(z, g)]"
  shows "\<exists>ratio. ratio_of mh = Inr ratio \<and>
     itervalues (new_sample_of mh) = [Value (Copy g (dict_swap_old_of mh) ''proposal_znew'')] \<and>
     itervalues (old_sample_of mh) = [Gather (params qz) last_index] \<and>
     sample_of mh (accept_of ratio) =
       Inr [(RandomVariable z,
             Cond (accept_of ratio) (Value (Copy g (dict_swap_old_of mh) ''proposal_znew''))
                  (Gather (params qz) last_index))] \<and>
     build_update variables mh =
       (case resolve_variable variables qz of
          Inl e \<Rightarrow> Inl e
        | Inr variable \<Rightarrow>
            Inr (Group [ScatterUpdate variable T
                          (Cond (accept_of ratio)
                             (Value (Copy g (dict_swap_old_of mh) ''proposal_znew''))
                             (Gather (params qz) last_index)),
                        AssignAdd (Select (accept_of ratio) (IntConst 1) (IntConst 0))]))"
proof -
  have "fst ` set (proposal_vars mh) = fst ` set (latent_vars mh)"
    by (simp add: lv pv)
  then obtain ratio where r: "ratio_of mh = Inr ratio"
    using ratio_of_defined by blast
  have new: "new_sample_of mh =
      [(RandomVariable z, Value (Copy g (dict_swap_old_of mh) ''proposal_znew''))]"
    by (simp add: new_sample_of_eq pv dict_of_def)
  have old: "old_sample_of mh = [(RandomVariable z, Gather (params qz) last_index)]"
    by (simp add: old_sample_of_def lv dict_of_def)
  have s: "sample_of mh acc =
      Inr [(RandomVariable z,
            Cond acc (Value (Copy g (dict_swap_old_of mh) ''proposal_znew''))
                 (Gather (params qz) last_index))]" for acc
    by (simp add: sample_of_def new old itervalues_def iterkeys_def tf_cond_def dict_of_def)
  show ?thesis
    by (simp add: r new old s build_update_def lv dict_get_def itervalues_def Let_def
          split: sum.split)
qed

lemma build_update_example_structured:
  "\<exists>ratio v. build_update example_variables example_structured =
     Inr (Group [ScatterUpdate ''v1'' T v,
                 AssignAdd (Select (accept_of ratio) (IntConst 1) (IntConst 0))]) \<and>
     ratio_of example_structured = Inr ratio"
proof -
  have l: "latent_vars example_structured =
     [(''z'', Empirical (Handle ''i1'' [Handle ''r1'' [Handle ''v1'' []]]))]"
    by (simp add: example_structured_def)
  have p: "proposal_vars example_structured = [(''z'', ''g'')]"
    by (simp add: example_structured_def)
  have v: "resolve_variable example_variables
             (Empirical (Handle ''i1'' [Handle ''r1'' [Handle ''v1'' []]])) = Inr ''v1''"
    by (simp add: resolve_variable_def example_variables_def)
  from build_update_single [OF l p, of example_variables] v show ?thesis
    by auto
qed

text \<open>
  Claim C2 fails on a configuration the constructor accepts. The two branches of
  \<^verbatim>\<open>tf.cond\<close> list the values of \<^verbatim>\<open>new_sample\<close> and of \<^verbatim>\<open>old_sample\<close>, each
  dictionary in its own order, and line 135 pairs the merged values with the keys of
  \<^verbatim>\<open>new_sample\<close>. With latent variables \<open>z1, z2\<close> and proposals inserted as \<open>z2, z1\<close>
  the value committed to the store of \<open>z1\<close> is its new sample on acceptance and the old
  sample of \<open>z2\<close> on rejection.
\<close>

theorem swapped_order_commits_other_old_sample:
  "\<exists>ratio new1 new2 old1 old2.
     ratio_of example_swapped = Inr ratio \<and>
     dict_get (new_sample_of example_swapped) (RandomVariable ''z1'') = Inr new1 \<and>
     dict_get (new_sample_of example_swapped) (RandomVariable ''z2'') = Inr new2 \<and>
     dict_get (old_sample_of example_swapped) (RandomVariable ''z1'') = Inr old1 \<and>
     dict_get (old_sample_of example_swapped) (RandomVariable ''z2'') = Inr old2 \<and>
     old1 \<noteq> old2 \<and>
     build_update example_variables example_swapped =
       Inr (Group [ScatterUpdate ''v1'' T (Cond (accept_of ratio) new1 old2),
                   ScatterUpdate ''v2'' T (Cond (accept_of ratio) new2 old1),
                   AssignAdd (Select (accept_of ratio) (IntConst 1) (IntConst 0))]) \<and>
     eval_val (\<lambda>_. False) (\<lambda>x. x) (Cond (accept_of ratio) new1 old2) = old2"
proof -
  have "fst ` set (proposal_vars example_swapped) = fst ` set (latent_vars example_swapped)"
    by (auto simp: example_swapped_def)
  then obtain ratio where r: "ratio_of example_swapped = Inr ratio"
    using ratio_of_defined by blast
  let ?h1 = "Handle ''i1'' [Handle ''r1'' [Handle ''v1'' []]]"
  let ?h2 = "Handle ''i2'' [Handle ''r2'' [Handle ''v2'' []]]"
  let ?n1 = "Value (Copy ''g1'' (dict_swap_old_of example_swapped) ''proposal_znew'')"
  let ?n2 = "Value (Copy ''g2'' (dict_swap_old_of example_swapped) ''proposal_znew'')"
  have old: "old_sample_of example_swapped =
      [(RandomVariable ''z1'', Gather ?h1 last_index),
       (RandomVariable ''z2'', Gather ?h2 last_index)]"
    by (simp add: old_sample_of_def example_swapped_def dict_of_def)
  have pv: "proposal_vars example_swapped = [(''z2'', ''g2''), (''z1'', ''g1'')]"
    by (simp add: example_swapped_def)
  have new: "new_sample_of example_swapped =
      [(RandomVariable ''z2'', ?n2), (RandomVariable ''z1'', ?n1)]"
    by (simp add: new_sample_of_eq pv dict_of_def)
  have s: "sample_of example_swapped acc =
      Inr [(RandomVariable ''z2'', Cond acc ?n2 (Gather ?h1 last_index)),
           (RandomVariable ''z1'', Cond acc ?n1 (Gather ?h2 last_index))]" for acc
    by (simp add: sample_of_def new old itervalues_def iterkeys_def tf_cond_def dict_of_def)
  have lv: "latent_vars example_swapped = [(''z1'', Empirical ?h1), (''z2'', Empirical ?h2)]"
    by (simp add: example_swapped_def)
  have b: "build_update example_variables example_swapped =
       Inr (Group [ScatterUpdate ''v1'' T (Cond (accept_of ratio) ?n1 (Gather ?h2 last_index)),
                   ScatterUpdate ''v2'' T (Cond (accept_of ratio) ?n2 (Gather ?h1 last_index)),
                   AssignAdd (Select (accept_of ratio) (IntConst 1) (IntConst 0))])"
    by (simp add: build_update_def r s lv Let_def resolve_variable_def example_variables_def
          dict_get_def)
  have e: "eval_val (\<lambda>_. False) (\<lambda>x. x)
             (Cond (accept_of ratio) ?n1 (Gather ?h2 last_index)) = Gather ?h2 last_index"
    by simp
  have g: "dict_get (new_sample_of example_swapped) (RandomVariable ''z1'') = Inr ?n1"
       "dict_get (new_sample_of example_swapped) (RandomVariable ''z2'') = Inr ?n2"
       "dict_get (old_sample_of example_swapped) (RandomVariable ''z1'') =
          Inr (Gather ?h1 last_index)"
       "dict_get (old_sample_of example_swapped) (RandomVariable ''z2'') =
          Inr (Gather ?h2 last_index)"
    by (simp_all add: new old dict_get_def)
  have ne: "Gather ?h1 last_index \<noteq> Gather ?h2 last_index" by simp
  from r g ne b e show ?thesis by blast
qed

text \<open>
  Claim C9. With exactly one latent variable \<^verbatim>\<open>tf.cond\<close> returns a bare tensor; line
  132 wraps it, so that \<^verbatim>\<open>sample\<close> binds the variable to the selection between its new
  and its old sample and the update writes that selection into its store. Whatever the
  number of variables, the normalised result of \<^verbatim>\<open>tf.cond\<close> is the list of the
  selections, position by position.
\<close>

theorem single_latent_bare_value:
  assumes "latent_vars mh = [(z, qz)]" and "proposal_vars mh = [(z, g)]"
  shows "\<exists>ratio new old.
     ratio_of mh = Inr ratio \<and>
     new = Value (Copy g (dict_swap_old_of mh) ''proposal_znew'') \<and>
     old = Gather (params qz) last_index \<and>
     tf_cond (accept_of ratio) (itervalues (new_sample_of mh)) (itervalues (old_sample_of mh)) =
       Inr (Bare (Cond (accept_of ratio) new old)) \<and>
     sample_of mh (accept_of ratio) = Inr [(RandomVariable z, Cond (accept_of ratio) new old)] \<and>
     build_update variables mh =
       (case resolve_variable variables qz of
          Inl e \<Rightarrow> Inl e
        | Inr variable \<Rightarrow>
            Inr (Group [ScatterUpdate variable T (Cond (accept_of ratio) new old),
                        AssignAdd (Select (accept_of ratio) (IntConst 1) (IntConst 0))])) \<and>
     (\<forall>acc ns os. length ns = length os \<and> ns \<noteq> [] \<longrightarrow>
        (\<exists>res. tf_cond acc ns os = Inr res \<and>
               as_list res = map (\<lambda>(x, y). Cond acc x y) (zip ns os)))"
proof -
  from build_update_single [OF assms, of variables] obtain ratio where
    r: "ratio_of mh = Inr ratio" and
    n: "itervalues (new_sample_of mh) = [Value (Copy g (dict_swap_old_of mh) ''proposal_znew'')]" and
    ol: "itervalues (old_sample_of mh) = [Gather (params qz) last_index]" and
    s: "sample_of mh (accept_of ratio) =
       Inr [(RandomVariable z,
             Cond (accept_of ratio) (Value (Copy g (dict_swap_old_of mh) ''proposal_znew''))
                  (Gather (params qz) last_index))]" and
    b: "build_update variables mh =
       (case resolve_variable variables qz of
          Inl e \<Rightarrow> Inl e
        | Inr variable \<Rightarrow>
            Inr (Group [ScatterUpdate variable T
                          (Cond (accept_of ratio)
                             (Value (Copy g (dict_swap_old_of mh) ''proposal_znew''))
                             (Gather (params qz) last_index)),
                        AssignAdd (Select (accept_of ratio) (IntConst 1) (IntConst 0))]))"
    by blast
  have c: "tf_cond (accept_of ratio) (itervalues (new_sample_of mh))
             (itervalues (old_sample_of mh)) =
           Inr (Bare (Cond (accept_of ratio)
                   (Value (Copy g (dict_swap_old_of mh) ''proposal_znew''))
                   (Gather (params qz) last_index)))"
    by (simp add: n ol tf_cond_def)
  from r s b c tf_cond_as_list show ?thesis by blast
qed

theorem single_latent_bare_value_witness:
  "latent_vars example_structured =
     [(''z'', Empirical (Handle ''i1'' [Handle ''r1'' [Handle ''v1'' []]]))] \<and>
   proposal_vars example_structured = [(''z'', ''g'')] \<and>
   (\<exists>ratio new old.
      sample_of example_structured (accept_of ratio) =
        Inr [(RandomVariable ''z'', Cond (accept_of ratio) new old)] \<and>
      build_update example_variables example_structured =
        Inr (Group [ScatterUpdate ''v1'' T (Cond (accept_of ratio) new old),
                    AssignAdd (Select (accept_of ratio) (IntConst 1) (IntConst 0))]) \<and>
      (\<exists>res. tf_cond (accept_of ratio) [new, new] [old, old] = Inr res \<and>
             as_list res = [Cond (accept_of ratio) new old, Cond (accept_of ratio) new old]))"
proof -
  have l: "latent_vars example_structured =
     [(''z'', Empirical (Handle ''i1'' [Handle ''r1'' [Handle ''v1'' []]]))]"
    by (simp add: example_structured_def)
  have p: "proposal_vars example_structured = [(''z'', ''g'')]"
    by (simp add: example_structured_def)
  have v: "resolve_variable example_variables
             (Empirical (Handle ''i1'' [Handle ''r1'' [Handle ''v1'' []]])) = Inr ''v1''"
    by (simp add: resolve_variable_def example_variables_def)
  from single_latent_bare_value [OF l p, of example_variables] obtain ratio new old where
    s: "sample_of example_structured (accept_of ratio) =
          Inr [(RandomVariable ''z'', Cond (accept_of ratio) new old)]" and
    b: "build_update example_variables example_structured =
       (case resolve_variable example_variables
               (Empirical (Handle ''i1'' [Handle ''r1'' [Handle ''v1'' []]])) of
          Inl e \<Rightarrow> Inl e
        | Inr variable \<Rightarrow>
            Inr (Group [ScatterUpdate variable T (Cond (accept_of ratio) new old),
                        AssignAdd (Select (accept_of ratio) (IntConst 1) (IntConst 0))]))" and
    g: "\<forall>acc ns os. length ns = length os \<and> ns \<noteq> [] \<longrightarrow>
        (\<exists>res. tf_cond acc ns os = Inr res \<and>
               as_list res = map (\<lambda>(x, y). Cond acc x y) (zip ns os))"
    by blast
  from g have "length [new, new] = length [old, old] \<and> [new, new] \<noteq> [] \<longrightarrow>
        (\<exists>res. tf_cond (accept_of ratio) [new, new] [old, old] = Inr res \<and>
               as_list res = map (\<lambda>(x, y). Cond (accept_of ratio) x y)
                               (zip [new, new] [old, old]))"
    by blast
  then have t: "\<exists>res. tf_cond (accept_of ratio) [new, new] [old, old] = Inr res \<and>
             as_list res = [Cond (accept_of ratio) new old, Cond (accept_of ratio) new old]"
    by simp
  from b v have "build_update example_variables example_structured =
        Inr (Group [ScatterUpdate ''v1'' T (Cond (accept_of ratio) new old),
                    AssignAdd (Select (accept_of ratio) (IntConst 1) (IntConst 0))])"
    by simp
  with l p s t show ?thesis by blast
qed

subsection \<open>Mismatched key sets\<close>

text \<open>
  Claim C4, as stated, fails: \<^verbatim>\<open>__init__\<close> compares nothing. With a base constructor
  that accepts its arguments, a latent variable without a proposal is accepted.
\<close>

theorem init_accepts_mismatch:
  "fst ` set [(''z'', Empirical (Handle ''i1'' [Handle ''r1'' [Handle ''v1'' []]]))] \<noteq>
     fst ` set ([] :: (name \<times> name) list) \<and>
   MetropolisHastings_init store_args
     [(''z'', Empirical (Handle ''i1'' [Handle ''r1'' [Handle ''v1'' []]]))] [] [] None =
   Inr \<lparr>latent_vars = [(''z'', Empirical (Handle ''i1'' [Handle ''r1'' [Handle ''v1'' []]]))],
        proposal_vars = [], data = [], model_wrapper = None\<rparr>"
  by (simp add: MetropolisHastings_init_def store_args_def)

text \<open>
  Claim C4, amended. The constructor does not reject mismatched key sets: it succeeds
  exactly when the base constructor does, which is not given the proposals. The mismatch
  is rejected when \<^verbatim>\<open>build_update\<close> builds the update operation, before any step runs:
  whenever the key sets of the two dictionaries differ, \<^verbatim>\<open>build_update\<close> raises.
\<close>

theorem key_mismatch_rejected_by_build_update:
  assumes dl: "distinct (map fst (latent_vars mh))"
    and dp: "distinct (map fst (proposal_vars mh))"
    and neq: "fst ` set (latent_vars mh) \<noteq> fst ` set (proposal_vars mh)"
  shows "(\<exists>e. build_update variables mh = Inl e) \<and>
         isl (MetropolisHastings_init super_init lv pv d mw) = isl (super_init lv d mw)"
proof
  show "\<exists>e. build_update variables mh = Inl e"
  proof (cases "build_update variables mh")
    case (Inl e)
    then show ?thesis by simp
  next
    case (Inr u)
    from build_update_assign [OF Inr] obtain ratio sample ops where
      s: "sample_of mh (accept_of ratio) = Inr sample" and
      a: "assign_loop variables sample (latent_vars mh) = Inr ops"
      by blast
    from sample_of_Inr [OF s] have "length (new_sample_of mh) = length (old_sample_of mh)"
      by simp
    with dl dp have len: "length (proposal_vars mh) = length (latent_vars mh)"
      by (simp add: length_new_sample length_old_sample)
    have sub: "fst ` set (latent_vars mh) \<subseteq> fst ` set (proposal_vars mh)"
    proof
      fix z assume "z \<in> fst ` set (latent_vars mh)"
      then obtain qz where "(z, qz) \<in> set (latent_vars mh)" by auto
      from assign_loop_keys [OF a this] have "RandomVariable z \<in> fst ` set sample" .
      then show "z \<in> fst ` set (proposal_vars mh)"
        by (auto simp: keys_sample [OF s])
    qed
    have "card (fst ` set (latent_vars mh)) = length (latent_vars mh)"
      using dl by (metis distinct_card length_map set_map)
    moreover have "card (fst ` set (proposal_vars mh)) = length (proposal_vars mh)"
      using dp by (metis distinct_card length_map set_map)
    ultimately have "card (fst ` set (proposal_vars mh)) \<le> card (fst ` set (latent_vars mh))"
      using len by simp
    with sub have "fst ` set (latent_vars mh) = fst ` set (proposal_vars mh)"
      by (simp add: card_seteq)
    with neq show ?thesis by simp
  qed
next
  show "isl (MetropolisHastings_init super_init lv pv d mw) = isl (super_init lv d mw)"
    by (auto simp: MetropolisHastings_init_def split: sum.splits)
qed

theorem key_mismatch_rejected_by_build_update_witness:
  "distinct (map fst (latent_vars example_mismatch)) \<and>
   distinct (map fst (proposal_vars example_mismatch)) \<and>
   fst ` set (latent_vars example_mismatch) \<noteq> fst ` set (proposal_vars example_mismatch) \<and>
   (\<exists>e. build_update example_variables example_mismatch = Inl e)"
proof -
  have a: "distinct (map fst (latent_vars example_mismatch))"
    by (simp add: example_mismatch_def)
  have b: "distinct (map fst (proposal_vars example_mismatch))"
    by (simp add: example_mismatch_def)
  have c: "fst ` set (latent_vars example_mismatch) \<noteq> fst ` set (proposal_vars example_mismatch)"
    by (simp add: example_mismatch_def)
  from key_mismatch_rejected_by_build_update [OF a b c] a b c show ?thesis by blast
qed


subsection \<open>Reading the last sample, writing the current one\<close>




lemma old_sample_lookup:
  assumes "distinct (map fst (latent_vars mh))" and "(z, qz) \<in> set (latent_vars mh)"
  shows "dict_get (old_sample_of mh) (RandomVariable z) = Inr (Gather (params qz) last_index)"
proof -
  let ?l = "map (\<lambda>(z, qz). (RandomVariable z, Gather (params qz) last_index)) (latent_vars mh)"
  have "map fst ?l = map RandomVariable (map fst (latent_vars mh))"
    by (simp add: comp_def split_def)
  with assms(1) have d: "distinct (map fst ?l)"
    by (simp add: distinct_map inj_on_def del: map_map)
  then have e: "old_sample_of mh = ?l"
    by (simp add: old_sample_of_def dict_of_distinct)
  from assms(2) have "(RandomVariable z, Gather (params qz) last_index) \<in> set ?l" by force
  with d have "map_of ?l (RandomVariable z) = Some (Gather (params qz) last_index)"
    by (rule map_of_is_SomeI)
  then show ?thesis by (simp add: e dict_get_def)
qed



subsection \<open>The acceptance counter\<close>

lemma run_ops_append:
  "run_ops bval fval t (xs @ ys) s =
   (case run_ops bval fval t xs s of None \<Rightarrow> None | Some s' \<Rightarrow> run_ops bval fval t ys s')"
  by (induction xs arbitrary: s) (auto split: option.splits)

lemma run_assign_loop_n_accept:
  "assign_loop variables sample lv = Inr ops \<Longrightarrow> run_ops bval fval t ops s = Some s' \<Longrightarrow>
   n_accept s' = n_accept s"
proof (induction lv arbitrary: ops s)
  case Nil
  then show ?case by simp
next
  case (Cons p lv)
  obtain z qz where p: "p = (z, qz)" by (cases p)
  from Cons.prems(1) p obtain variable v ops' where
    a: "assign_loop variables sample lv = Inr ops'" and
    o: "ops = ScatterUpdate variable T v # ops'"
    by (auto split: sum.splits)
  from Cons.prems(2) o obtain s1 where
    s1: "run_op bval fval t (ScatterUpdate variable T v) s = Some s1" and
    rest: "run_ops bval fval t ops' s1 = Some s'"
    by (auto split: option.splits)
  from s1 have "n_accept s1 = n_accept s"
    by (auto split: if_splits)
  with Cons.IH [OF a rest] show ?case by simp
qed

lemma sint_plus_one:
  fixes n :: "32 word"
  assumes "sint n < 2147483647"
  shows "sint (n + 1) = sint n + 1"
proof -
  have "- (2 ^ 31) \<le> sint n" using sint_ge [of n] by simp
  with assms have "signed_take_bit 31 (sint n + 1) = sint n + 1"
    by (simp add: signed_take_bit_int_eq_self)
  then show ?thesis by (simp add: sint_word_ariths)
qed

lemma run_assign_loop_succeeds:
  "assign_loop variables sample lv = Inr ops \<Longrightarrow> 0 \<le> sint t \<Longrightarrow>
   \<forall>v. nat (sint t) < length (buffers s v) \<Longrightarrow>
   \<exists>s'. run_ops bval fval t ops s = Some s' \<and> (\<forall>v. nat (sint t) < length (buffers s' v))"
proof (induction lv arbitrary: ops s)
  case Nil
  then show ?case by simp
next
  case (Cons p lv)
  obtain z qz where p: "p = (z, qz)" by (cases p)
  from Cons.prems(1) p obtain variable v ops' where
    a: "assign_loop variables sample lv = Inr ops'" and
    o: "ops = ScatterUpdate variable T v # ops'"
    by (auto split: sum.splits)
  let ?s1 = "s\<lparr>buffers := (buffers s)
               (variable := (buffers s variable)[nat (sint t) := eval_val bval fval v])\<rparr>"
  from Cons.prems(2,3) have s1: "run_op bval fval t (ScatterUpdate variable T v) s = Some ?s1"
    by simp
  from Cons.prems(3) have "\<forall>v. nat (sint t) < length (buffers ?s1 v)"
    by simp
  from Cons.IH [OF a Cons.prems(2) this] s1 o show ?case
    by simp
qed

text \<open>
  Claim C7, as stated, fails at the largest 32-bit integer: an accepted step takes
  \<^verbatim>\<open>n_accept\<close> from \<open>2147483647\<close> to \<open>-2147483648\<close>, so the counter decreases.
\<close>

theorem n_accept_wraps_at_max:
  "(case build_update example_variables example_structured of
      Inl e \<Rightarrow> None
    | Inr (Group ops) \<Rightarrow>
        map_option (\<lambda>s'. sint (n_accept s'))
          (run_ops (\<lambda>_. True) (\<lambda>x. x) 1 ops
             \<lparr>buffers = \<lambda>_. [Zero, Zero], n_accept = 2147483647\<rparr>)) =
   Some (- 2147483648)"
proof -
  from build_update_example_structured obtain ratio v where
    b: "build_update example_variables example_structured =
     Inr (Group [ScatterUpdate ''v1'' T v,
                 AssignAdd (Select (accept_of ratio) (IntConst 1) (IntConst 0))])"
    by blast
  show ?thesis by (simp add: b)
qed


text \<open>
  Claim C7, amended. Running the update adds 1 to \<^verbatim>\<open>n_accept\<close>, in 32-bit arithmetic,
  when the step is accepted and 0 otherwise; the assignments to the stores leave it
  alone. Below the largest 32-bit integer the counter therefore does not decrease and
  grows by at most 1. The run succeeds on every state whose stores have a row \<open>t\<close>.
\<close>

theorem n_accept_increment:
  assumes built: "build_update variables mh = Inr (Group ops)"
    and run: "run_ops bval fval t ops s = Some s'"
  shows "(\<exists>ratio. ratio_of mh = Inr ratio \<and>
           n_accept s' = n_accept s + (if bval (accept_of ratio) then 1 else 0) \<and>
           (sint (n_accept s) < 2147483647 \<longrightarrow>
              sint (n_accept s') = sint (n_accept s) + (if bval (accept_of ratio) then 1 else 0) \<and>
              sint (n_accept s) \<le> sint (n_accept s') \<and>
              sint (n_accept s') \<le> sint (n_accept s) + 1)) \<and>
         (\<forall>s0. 0 \<le> sint t \<and> (\<forall>v. nat (sint t) < length (buffers s0 v)) \<longrightarrow>
               (\<exists>s1. run_ops bval fval t ops s0 = Some s1))"
proof -
  from build_update_assign [OF built] obtain ratio sample ops' where
    r: "ratio_of mh = Inr ratio" and
    al: "assign_loop variables sample (latent_vars mh) = Inr ops'" and
    o: "ops = ops' @ [AssignAdd (Select (accept_of ratio) (IntConst 1) (IntConst 0))]"
    by auto
  from run o obtain s1 where
    r1: "run_ops bval fval t ops' s = Some s1" and
    r2: "run_ops bval fval t [AssignAdd (Select (accept_of ratio) (IntConst 1) (IntConst 0))] s1
           = Some s'"
    by (auto simp: run_ops_append split: option.splits)
  from run_assign_loop_n_accept [OF al r1] have keep: "n_accept s1 = n_accept s" .
  from r2 keep have n: "n_accept s' = n_accept s + (if bval (accept_of ratio) then 1 else 0)"
    by auto
  have "sint (n_accept s') = sint (n_accept s) + (if bval (accept_of ratio) then 1 else 0)"
    if "sint (n_accept s) < 2147483647"
    using n sint_plus_one [OF that] by simp
  with r n have first: "\<exists>ratio. ratio_of mh = Inr ratio \<and>
           n_accept s' = n_accept s + (if bval (accept_of ratio) then 1 else 0) \<and>
           (sint (n_accept s) < 2147483647 \<longrightarrow>
              sint (n_accept s') = sint (n_accept s) + (if bval (accept_of ratio) then 1 else 0) \<and>
              sint (n_accept s) \<le> sint (n_accept s') \<and>
              sint (n_accept s') \<le> sint (n_accept s) + 1)"
    by auto
  have "\<exists>s1. run_ops bval fval t ops s0 = Some s1"
    if "0 \<le> sint t \<and> (\<forall>v. nat (sint t) < length (buffers s0 v))" for s0
  proof -
    from that run_assign_loop_succeeds [OF al, of t s0 bval fval] obtain s1 where
      "run_ops bval fval t ops' s0 = Some s1" by blast
    then show ?thesis by (simp add: o run_ops_append)
  qed
  with first show ?thesis by blast
qed

theorem n_accept_increment_witness:
  "\<exists>ops s'. build_update example_variables example_structured = Inr (Group ops) \<and>
     (0::int) \<le> sint (1::32 word) \<and>
     (\<forall>v. nat (sint (1::32 word)) <
          length (buffers \<lparr>buffers = \<lambda>_. [Zero, Zero], n_accept = 5::32 word\<rparr> v)) \<and>
     run_ops (\<lambda>_. True) (\<lambda>x. x) 1 ops \<lparr>buffers = \<lambda>_. [Zero, Zero], n_accept = 5\<rparr> = Some s' \<and>
     sint (5::32 word) < 2147483647 \<and>
     n_accept s' = 6 \<and> sint (n_accept s') = 6"
proof -
  from build_update_example_structured obtain ops where
    b: "build_update example_variables example_structured = Inr (Group ops)"
    by blast
  let ?s = "\<lparr>buffers = \<lambda>_. [Zero, Zero], n_accept = 5::32 word\<rparr>"
  have t: "(0::int) \<le> sint (1::32 word)" by simp
  have l: "\<forall>v. nat (sint (1::32 word)) < length (buffers ?s v)" by simp
  have total: "\<forall>s0 :: tensor chain. 0 \<le> sint (1::32 word) \<and>
          (\<forall>v. nat (sint (1::32 word)) < length (buffers s0 v)) \<longrightarrow>
          (\<exists>s1. run_ops (\<lambda>_. True) (\<lambda>x. x) 1 ops s0 = Some s1)"
  proof -
    have "run_ops (\<lambda>_. True) (\<lambda>x. x) 1 ops s0 \<noteq> None"
      if "0 \<le> sint (1::32 word) \<and> (\<forall>v. nat (sint (1::32 word)) < length (buffers s0 v))"
      for s0 :: "tensor chain"
    proof
      assume none: "run_ops (\<lambda>_. True) (\<lambda>x. x) 1 ops s0 = None"
      from build_update_assign [OF b] obtain ratio sample ops' where
        al: "assign_loop example_variables sample (latent_vars example_structured) = Inr ops'" and
        o: "ops = ops' @ [AssignAdd (Select (accept_of ratio) (IntConst 1) (IntConst 0))]"
        by auto
      from that run_assign_loop_succeeds [OF al, of 1 s0 "\<lambda>_. True" "\<lambda>x. x"] obtain s1 where
        "run_ops (\<lambda>_. True) (\<lambda>x. x) 1 ops' s0 = Some s1" by blast
      with none show False by (simp add: o run_ops_append)
    qed
    then show ?thesis by auto
  qed
  with t l obtain s' where run: "run_ops (\<lambda>_. True) (\<lambda>x. x) 1 ops ?s = Some s'"
    by blast
  have small: "sint (5::32 word) < 2147483647" by simp
  from n_accept_increment [OF b run] small
  have "n_accept s' = 6 \<and> sint (n_accept s') = 6"
    by auto
  with b run small t l show ?thesis by blast
qed

subsection \<open>Dictionaries that iterate in the same order\<close>

text \<open>
  When the two dictionaries list the same keys in the same order, every latent variable is
  paired with the selection between its own new and its own old sample.
\<close>

lemma zip_cond_lookup:
  "map fst ns = map fst os \<Longrightarrow> distinct (map fst ns) \<Longrightarrow>
   map_of ns k = Some n \<Longrightarrow> map_of os k = Some ol \<Longrightarrow>
   map_of (zip (map fst ns) (map (\<lambda>(x, y). Cond acc x y) (zip (map snd ns) (map snd os)))) k =
     Some (Cond acc n ol)"
proof (induction ns arbitrary: os)
  case Nil
  then show ?case by simp
next
  case (Cons a ns)
  then obtain b os' where oseq: "os = b # os'" by (cases os) auto
  with Cons.prems oseq have f: "fst a = fst b" "map fst ns = map fst os'" by simp_all
  show ?case
  proof (cases "k = fst a")
    case True
    with Cons.prems oseq f show ?thesis by (cases a; cases b) auto
  next
    case False
    with Cons.prems oseq f have "map_of ns k = Some n" "map_of os' k = Some ol"
      by (cases a; cases b; auto)+
    with Cons.IH [OF f(2)] Cons.prems(2) False oseq show ?thesis
      by (cases a; cases b) auto
  qed
qed

lemma joint_commit_same_order:
  assumes order: "map fst (proposal_vars mh) = map fst (latent_vars mh)"
    and dist: "distinct (map fst (latent_vars mh))"
    and s: "sample_of mh acc = Inr sample"
    and z: "(z, qz) \<in> set (latent_vars mh)"
  shows "\<exists>new. dict_get (new_sample_of mh) (RandomVariable z) = Inr new \<and>
           dict_get (old_sample_of mh) (RandomVariable z) = Inr (Gather (params qz) last_index) \<and>
           dict_get sample (RandomVariable z) =
             Inr (Cond acc new (Gather (params qz) last_index))"
proof -
  let ?ns = "new_sample_of mh" and ?os = "old_sample_of mh"
  let ?old = "Gather (params qz) last_index"
  have o: "map_of ?os (RandomVariable z) = Some ?old"
    using old_sample_lookup [OF dist z] by (simp add: dict_get_def split: option.splits)
  from z order have "z \<in> fst ` set (proposal_vars mh)"
    by (metis image_eqI fst_conv set_map)
  then obtain new where n: "map_of ?ns (RandomVariable z) = Some new"
    using new_sample_present by blast
  let ?fl = "\<lambda>(z, qz). (RandomVariable z, Gather (params qz) last_index)"
  have "map fst (map ?fl (latent_vars mh)) = map RandomVariable (map fst (latent_vars mh))"
    by (simp add: comp_def split_def)
  moreover from this dist have "distinct (map fst (map ?fl (latent_vars mh)))"
    by (simp add: distinct_map inj_on_def del: map_map)
  ultimately have ko: "map fst ?os = map RandomVariable (map fst (latent_vars mh))"
    by (simp add: old_sample_of_def dict_of_distinct del: map_map)
  let ?fp = "\<lambda>(z, g). (RandomVariable z,
                         Value (Copy g (dict_swap_old_of mh) ''proposal_znew''))"
  have "map fst (map ?fp (proposal_vars mh)) = map RandomVariable (map fst (proposal_vars mh))"
    by (simp add: comp_def split_def)
  moreover from this dist order have "distinct (map fst (map ?fp (proposal_vars mh)))"
    by (simp add: distinct_map inj_on_def del: map_map)
  ultimately have kn: "map fst ?ns = map RandomVariable (map fst (proposal_vars mh))"
    by (simp add: new_sample_of_eq dict_of_distinct del: map_map)
  from kn ko order have same: "map fst ?ns = map fst ?os" by simp
  let ?z = "zip (map fst ?ns) (map (\<lambda>(x, y). Cond acc x y) (zip (map snd ?ns) (map snd ?os)))"
  have look: "map_of ?z (RandomVariable z) = Some (Cond acc new ?old)"
    using same distinct_new_sample n o by (rule zip_cond_lookup)
  from same have "length ?ns = length ?os" by (metis length_map)
  then have "map fst ?z = map fst ?ns" by simp
  then have "distinct (map fst ?z)" using distinct_new_sample by simp
  then have "dict_of ?z = ?z" by (rule dict_of_distinct)
  with sample_of_Inr [OF s] have "sample = ?z" by simp
  with look n o show ?thesis by (simp add: dict_get_def)
qed

end
